theory Spec2Isabelle
  imports Main "HOL-Library.Sublist"
begin

section \<open>The notebook file format\<close>

text \<open>
  The repository holds one file, \<^verbatim>\<open>docs/notebooks/RagAgent.ipynb\<close>, a Jupyter notebook
  (JSON, nbformat 4.2) with recorded outputs. It is embedded here as the value it
  deserialises to. A cell is a markdown cell or a code cell; a code cell has an
  execution count, a list of outputs and its source; an output is a \<^verbatim>\<open>stream\<close>
  (its name and its text) or a \<^verbatim>\<open>display_data\<close> (its data, keyed by MIME type).
  Multi-line text is stored as the notebook stores it: a list of lines, each with the
  line feed that ends it, whose concatenation is the text. Strings are the bytes of
  the file's UTF-8 text. The \<^verbatim>\<open>metadata\<close> object of every cell and of every
  output is empty in this file and is not carried.
\<close>

datatype json = JString string | JNumber int | JObject "(string \<times> json) list"

datatype cell_output =
    Stream (stream_name: string) (stream_text: "string list")
  | Display_data (data: "(string \<times> string list) list")

datatype cell =
    Markdown_cell (source: "string list")
  | Code_cell (execution_count: "int option") (outputs: "cell_output list") (source: "string list")
  where
    "execution_count (Markdown_cell src) = None"
  | "outputs (Markdown_cell src) = []"

record notebook =
  cells :: "cell list"
  metadata :: json
  nbformat :: int
  nbformat_minor :: int

section \<open>The recorded notebook\<close>

text \<open>
  The cells are numbered from 0 in document order. Two characters that a string
  literal cannot hold are named: the backslash and the escape character of the
  terminal colour codes in the log lines.
\<close>

abbreviation BS :: char where "BS \<equiv> CHR 0x5C"

abbreviation ESC :: char where "ESC \<equiv> CHR 0x1B"

definition cell_0 :: cell where
  \<open>cell_0 = Markdown_cell
    [''# Example Notebook for RAG (Retrieval-Augmented Generation) Agent Usage'']\<close>

definition cell_1 :: cell where
  \<open>cell_1 = Markdown_cell
    [''### Query the RAG agent using the cell magic `%%ask` command'']\<close>

definition cell_2 :: cell where
  \<open>cell_2 = Code_cell (Some 16)
    []
    [''# %load_ext msticpy.aiagents.mp_docs_rag_magic\<newline>'',
     ''# Or use:\<newline>'',
     ''%reload_ext msticpy.aiagents.mp_docs_rag_magic'']\<close>

definition cell_3_output_0 :: cell_output where
  \<open>cell_3_output_0 = Stream ''stderr''
    [''2024-07-30 15:48:19,414 - autogen.agentchat.contrib.retrieve_user_proxy_agent - INFO - '' @ [ESC] @ ''[32mUse the existing collection `MSTICpy_Docs_2.12.0`.'' @ [ESC] @ ''[0m\<newline>'',
     ''2024-07-30 15:48:27,518 - autogen.agentchat.contrib.retrieve_user_proxy_agent - INFO - Found 384 chunks.'' @ [ESC] @ ''[0m\<newline>'']\<close>

definition cell_3_output_1 :: cell_output where
  \<open>cell_3_output_1 = Display_data [(''text/markdown'',
    [''\<newline>'',
     ''**Question**: What are the three things that I need to connect to Microsoft Sentinel Query Provider?''])]\<close>

definition cell_3_output_2 :: cell_output where
  \<open>cell_3_output_2 = Display_data [(''text/markdown'',
    [''\<newline>'',
     ''**Answer**: To connect to the Microsoft Sentinel Query Provider, you need the following three things:\<newline>'',
     ''\<newline>'',
     ''1. A `QueryProvider` instance.\<newline>'',
     ''2. The data environment string ("MSSentinel" for Microsoft Sentinel).\<newline>'',
     ''3. A connection string or authentication parameters.\<newline>'',
     ''\<newline>'',
     ''Sources: C:'' @ [BS] @ ''Users'' @ [BS] @ ''t-egarcia'' @ [BS] @ ''Documents'' @ [BS] @ ''Forked MSTICpy Repo'' @ [BS] @ ''msticpy'' @ [BS] @ ''docs'' @ [BS] @ ''source'' @ [BS] @ ''data_acquisition'' @ [BS] @ ''DataProviders.rst''])]\<close>

definition cell_3 :: cell where
  \<open>cell_3 = Code_cell (Some 2)
    [cell_3_output_0, cell_3_output_1, cell_3_output_2]
    [''%%ask \<newline>'',
     ''What are the three things that I need to connect to Microsoft Sentinel Query Provider?'']\<close>

definition cell_4_output_0 :: cell_output where
  \<open>cell_4_output_0 = Display_data [(''text/markdown'',
    [''\<newline>'',
     ''**Question**: How do I connect to the M365 Defender query provider?''])]\<close>

definition cell_4_output_1 :: cell_output where
  \<open>cell_4_output_1 = Display_data [(''text/markdown'',
    [''\<newline>'',
     ''**Answer**: To connect to the M365 Defender query provider, you need to follow these steps:\<newline>'',
     ''\<newline>'',
     ''1. Ensure your connection details are specified in the `msticpyconfig.yaml` file.\<newline>'',
     ''\<newline>'',
     ''2. Create a `QueryProvider` instance for M365 Defender.\<newline>'',
     ''\<newline>'',
     ''3. Call the `connect()` method on the instance.\<newline>'',
     ''\<newline>'',
     ''Here\'s an example:\<newline>'',
     ''\<newline>'',
     ''```python\<newline>'',
     ''from msticpy.data import QueryProvider\<newline>'',
     ''\<newline>'',
     ''# Create a QueryProvider instance\<newline>'',
     ''mdatp_prov = QueryProvider("M365D")\<newline>'',
     ''\<newline>'',
     ''# Connect to the M365 Defender instance using the configured details\<newline>'',
     ''mdatp_prov.connect()\<newline>'',
     ''```\<newline>'',
     ''\<newline>'',
     ''If you have multiple instances configured, specify the instance name when calling `connect()`:\<newline>'',
     ''\<newline>'',
     ''```python\<newline>'',
     ''mdatp_prov.connect(instance="Tenant2")\<newline>'',
     ''```\<newline>'',
     ''\<newline>'',
     ''If you prefer to pass connection parameters directly, use keyword arguments:\<newline>'',
     ''\<newline>'',
     ''```python\<newline>'',
     ''# Collect credentials\<newline>'',
     ''ten_id = input(\'Tenant ID\')\<newline>'',
     ''client_id = input(\'Client ID\')\<newline>'',
     ''client_secret = input(\'Client Secret\')\<newline>'',
     ''\<newline>'',
     ''# Create a QueryProvider instance\<newline>'',
     ''mdatp_prov = QueryProvider(\'M365D\')\<newline>'',
     ''\<newline>'',
     ''# Connect using collected credentials\<newline>'',
     ''mdatp_prov.connect(tenant_id=ten_id, client_id=client_id, client_secret=client_secret)\<newline>'',
     ''```\<newline>'',
     ''\<newline>'',
     ''Alternatively, you can use a connection string:\<newline>'',
     ''\<newline>'',
     ''```python\<newline>'',
     ''# Define a connection string\<newline>'',
     ''conn_str = (\<newline>'',
     ''    "tenant_id=\'243bb6be-4136-4b64-9055-fb661594199a\'; "\<newline>'',
     ''    "client_id=\'a5b24e23-a96a-4472-b729-9e5310c83e20\'; "\<newline>'',
     ''    "client_secret=\'[PLACEHOLDER]\'"\<newline>'',
     '')\<newline>'',
     ''\<newline>'',
     ''# Create a QueryProvider instance\<newline>'',
     ''mdatp_prov = QueryProvider(\'M365D\')\<newline>'',
     ''\<newline>'',
     ''# Connect using the connection string\<newline>'',
     ''mdatp_prov.connect(conn_str)\<newline>'',
     ''```\<newline>'',
     ''\<newline>'',
     ''Sources: C:'' @ [BS] @ ''Users'' @ [BS] @ ''t-egarcia'' @ [BS] @ ''Documents'' @ [BS] @ ''Forked MSTICpy Repo'' @ [BS] @ ''msticpy'' @ [BS] @ ''docs'' @ [BS] @ ''source'' @ [BS] @ ''data_acquisition'' @ [BS] @ ''DataProv-MSDefender.rst''])]\<close>

definition cell_4 :: cell where
  \<open>cell_4 = Code_cell (Some 3)
    [cell_4_output_0, cell_4_output_1]
    [''%%ask\<newline>'',
     ''How do I connect to the M365 Defender query provider?'']\<close>

definition cell_5_output_0 :: cell_output where
  \<open>cell_5_output_0 = Display_data [(''text/markdown'',
    [''\<newline>'',
     ''**Question**: What do I need to add to my msticpyconfig.yaml config for the Azure Resource Graph query provider?''])]\<close>

definition cell_5_output_1 :: cell_output where
  \<open>cell_5_output_1 = Display_data [(''text/markdown'',
    [''\<newline>'',
     ''**Answer**: To add Azure Resource Graph to your `msticpyconfig.yaml` configuration, include the following under the `Azure` section:\<newline>'',
     ''\<newline>'',
     ''```yaml\<newline>'',
     ''Azure:\<newline>'',
     ''  auth_methods:\<newline>'',
     ''  - cli\<newline>'',
     ''  - interactive\<newline>'',
     ''  cloud: global\<newline>'',
     ''```\<newline>'',
     ''\<newline>'',
     ''For more information on configuring `msticpyconfig.yaml`, refer to the MSTICPy documentation.\<newline>'',
     ''\<newline>'',
     ''Sources: C:'' @ [BS] @ ''Users'' @ [BS] @ ''t-egarcia'' @ [BS] @ ''Documents'' @ [BS] @ ''Forked MSTICpy Repo'' @ [BS] @ ''msticpy'' @ [BS] @ ''docs'' @ [BS] @ ''source'' @ [BS] @ ''data_acquisition'' @ [BS] @ ''ResourceGraphDriver.rst''])]\<close>

definition cell_5 :: cell where
  \<open>cell_5 = Code_cell (Some 4)
    [cell_5_output_0, cell_5_output_1]
    [''%%ask\<newline>'',
     ''What do I need to add to my msticpyconfig.yaml config for the Azure Resource Graph query provider?'']\<close>

definition cell_6 :: cell where
  \<open>cell_6 = Markdown_cell
    [''#### A response of `UPDATE_CONTEXT` indicates that the agents are unable to answer the query with the information retrieved by the RAG agent.'']\<close>

definition cell_7_output_0 :: cell_output where
  \<open>cell_7_output_0 = Display_data [(''text/markdown'',
    [''\<newline>'',
     ''**Question**: Does the Splunk query provider support device code authentication?''])]\<close>

definition cell_7_output_1 :: cell_output where
  \<open>cell_7_output_1 = Display_data [(''text/markdown'',
    [''\<newline>'',
     ''**Answer**: UPDATE CONTEXT''])]\<close>

definition cell_7 :: cell where
  \<open>cell_7 = Code_cell (Some 5)
    [cell_7_output_0, cell_7_output_1]
    [''%%ask\<newline>'',
     ''Does the Splunk query provider support device code authentication?'']\<close>

definition cell_8_output_0 :: cell_output where
  \<open>cell_8_output_0 = Display_data [(''text/markdown'',
    [''\<newline>'',
     ''**Question**: How can I plot IP addresses in this dataframe on a map?''])]\<close>

definition cell_8_output_1 :: cell_output where
  \<open>cell_8_output_1 = Display_data [(''text/markdown'',
    [''\<newline>'',
     ''**Answer**: To plot IP addresses in a DataFrame on a map using MSTICpy\'s FoliumMap, you can use the `mp_plot.folium_map` pandas accessor. Here\'s an example:\<newline>'',
     ''\<newline>'',
     ''```python\<newline>'',
     ''# Plotting IP addresses using the mp_plot.folium_map accessor\<newline>'',
     ''geo_loc_df.mp_plot.folium_map(ip_column="IPAddress")\<newline>'',
     ''```\<newline>'',
     ''\<newline>'',
     ''This will display an interactive map with markers based on the IP addresses in the "IPAddress" column of your DataFrame.\<newline>'',
     ''\<newline>'',
     ''Sources: C:'' @ [BS, BS] @ ''Users'' @ [BS, BS] @ ''t-egarcia'' @ [BS, BS] @ ''Documents'' @ [BS, BS] @ ''Forked MSTICpy Repo'' @ [BS, BS] @ ''msticpy'' @ [BS, BS] @ ''docs'' @ [BS, BS] @ ''source'' @ [BS, BS] @ ''visualization'' @ [BS, BS] @ ''FoliumMap.rst''])]\<close>

definition cell_8 :: cell where
  \<open>cell_8 = Code_cell (Some 6)
    [cell_8_output_0, cell_8_output_1]
    [''%%ask \<newline>'',
     ''How can I plot IP addresses in this dataframe on a map?'']\<close>

definition cell_9_output_0 :: cell_output where
  \<open>cell_9_output_0 = Display_data [(''text/markdown'',
    [''\<newline>'',
     ''**Question**: How do I create a new custom data provider with msticpy?''])]\<close>

definition cell_9_output_1 :: cell_output where
  \<open>cell_9_output_1 = Display_data [(''text/markdown'',
    [''\<newline>'',
     ''**Answer**: To create a new custom data provider with MSTICpy, follow these main steps:\<newline>'',
     ''\<newline>'',
     ''1. **Write the driver class:** Derive it from `DriverBase` and implement the methods `__init__`, `connect`, `query`, and optionally `query_with_results`.\<newline>'',
     ''2. **Customize the driver (optional):** Expose attributes via `QueryProvider`, and implement custom parameter formatting and query parameter substitution if needed.\<newline>'',
     ''3. **Register the driver:** Update the `DataEnvironment` enum and add an entry to the driver dynamic load table.\<newline>'',
     ''4. **Add queries:** Create a folder named after your `DataEnvironment` and add your query files there.\<newline>'',
     ''5. **Add settings definition:** Define settings in a YAML configuration file.\<newline>'',
     ''6. **Create documentation:** Document the configuration and use of the data provider.\<newline>'',
     ''7. **Create unit tests:** Add unit tests using mocks to simulate service responses.\<newline>'',
     ''\<newline>'',
     ''For detailed guidance on these steps, refer to the provided MSTICpy documentation related to data providers.\<newline>'',
     ''\<newline>'',
     ''Sources: WritingDataProviders.rst, PluginFramework.rst, ExtendingMsticpy.rst''])]\<close>

definition cell_9 :: cell where
  \<open>cell_9 = Code_cell (Some 7)
    [cell_9_output_0, cell_9_output_1]
    [''%%ask \<newline>'',
     ''How do I create a new custom data provider with msticpy?'']\<close>

definition cell_10_output_0 :: cell_output where
  \<open>cell_10_output_0 = Display_data [(''text/markdown'',
    [''\<newline>'',
     ''**Question**: How do I list which TI providers are currently enabled?''])]\<close>

definition cell_10_output_1 :: cell_output where
  \<open>cell_10_output_1 = Display_data [(''text/markdown'',
    [''\<newline>'',
     ''**Answer**: ### Step 1: Intent\<newline>'',
     ''The user\'s intent is to get help with **question answering**.\<newline>'',
     ''\<newline>'',
     ''### Step 2: Answer\<newline>'',
     ''To list which Threat Intelligence (TI) providers are currently enabled in MSTICpy, you can inspect the configuration typically found in the `msticpyconfig.yaml` file under the `TIProviders` section. This configuration file determines which providers are set up and whether they are marked as primary/secondary.\<newline>'',
     ''\<newline>'',
     ''Sources: `C:'' @ [BS, BS] @ ''Users'' @ [BS, BS] @ ''t-egarcia'' @ [BS, BS] @ ''Documents'' @ [BS, BS] @ ''Forked MSTICpy Repo'' @ [BS, BS] @ ''msticpy'' @ [BS, BS] @ ''docs'' @ [BS, BS] @ ''source'' @ [BS, BS] @ ''extending'' @ [BS, BS] @ ''WritingTIAndContextProviders.rst`''])]\<close>

definition cell_10 :: cell where
  \<open>cell_10 = Code_cell (Some 9)
    [cell_10_output_0, cell_10_output_1]
    [''%%ask \<newline>'',
     ''How do I list which TI providers are currently enabled?'']\<close>

definition cell_11_output_0 :: cell_output where
  \<open>cell_11_output_0 = Display_data [(''text/markdown'',
    [''\<newline>'',
     ''**Question**: How do I lookup threat intelligence for multiple IP addresses at once?''])]\<close>

definition cell_11_output_1 :: cell_output where
  \<open>cell_11_output_1 = Display_data [(''text/markdown'',
    [''\<newline>'',
     ''**Answer**: Step 1: User\'s intent is to generate code for performing threat intelligence lookups for multiple IP addresses at once.\<newline>'',
     ''\<newline>'',
     ''Step 2:\<newline>'',
     ''```python\<newline>'',
     ''from msticpy.context.ip_utils import ip_whois\<newline>'',
     ''\<newline>'',
     ''# List of IP addresses to lookup\<newline>'',
     ''ip_list = ["123.1.2.3", "124.5.6.7"]\<newline>'',
     ''\<newline>'',
     ''# Performing Whois lookup for multiple IP addresses\<newline>'',
     ''whois_data = ip_whois(ip_list)\<newline>'',
     ''print(whois_data)\<newline>'',
     ''```\<newline>'',
     ''\<newline>'',
     ''Sources: C:'' @ [BS] @ ''Users'' @ [BS] @ ''t-egarcia'' @ [BS] @ ''Documents'' @ [BS] @ ''Forked MSTICpy Repo'' @ [BS] @ ''msticpy'' @ [BS] @ ''docs'' @ [BS] @ ''source'' @ [BS] @ ''data_acquisition'' @ [BS] @ ''IPWhois.rst''])]\<close>

definition cell_11 :: cell where
  \<open>cell_11 = Code_cell (Some 10)
    [cell_11_output_0, cell_11_output_1]
    [''%%ask \<newline>'',
     ''How do I lookup threat intelligence for multiple IP addresses at once?'']\<close>

definition cell_12_output_0 :: cell_output where
  \<open>cell_12_output_0 = Display_data [(''text/markdown'',
    [''\<newline>'',
     ''**Question**: How do I use pivot functions?''])]\<close>

definition cell_12_output_1 :: cell_output where
  \<open>cell_12_output_1 = Display_data [(''text/markdown'',
    [''\<newline>'',
     ''**Answer**: To use pivot functions in MSTICpy, you have two primary options: creating persistent pivot function definitions in YAML files or adding ad hoc pivot functions directly in code. Here\'s a brief overview of both methods:\<newline>'',
     ''\<newline>'',
     ''**1. Persistent Pivot Function Definitions**\<newline>'',
     ''\<newline>'',
     ''- Define your pivot function properties in a YAML file with a top-level element `pivot_providers`.\<newline>'',
     ''- Example YAML definition:\<newline>'',
     ''\<newline>'',
     ''```yaml\<newline>'',
     ''pivot_providers:\<newline>'',
     ''  who_is:\<newline>'',
     ''    src_module: msticpy.context.ip_utils\<newline>'',
     ''    src_func_name: get_whois_df\<newline>'',
     ''    func_new_name: whois\<newline>'',
     ''    input_type: dataframe\<newline>'',
     ''    entity_map:\<newline>'',
     ''      IpAddress: Address\<newline>'',
     ''    func_df_param_name: data\<newline>'',
     ''    func_df_col_param_name: ip_column\<newline>'',
     ''    func_out_column_name: query\<newline>'',
     ''    func_static_params:\<newline>'',
     ''      all_columns: True\<newline>'',
     ''      show_progress: False\<newline>'',
     ''    func_input_value_arg: ip_address\<newline>'',
     ''```\<newline>'',
     ''\<newline>'',
     ''- Load and register the definition using:\<newline>'',
     ''\<newline>'',
     ''```python\<newline>'',
     ''from msticpy.init.pivot_core.pivot import Pivot\<newline>'',
     ''Pivot.register_pivot_providers(pivot_reg_path=path_to_your_yaml, namespace=globals(), def_container="my_container", force_container=True)\<newline>'',
     ''```\<newline>'',
     ''\<newline>'',
     ''**2. Ad Hoc Pivot Functions in Code**\<newline>'',
     ''\<newline>'',
     ''- Add a function as a pivot using the `add_pivot_function` method:\<newline>'',
     ''\<newline>'',
     ''```python\<newline>'',
     ''def my_func(input: str):\<newline>'',
     ''    return input.upper()\<newline>'',
     ''\<newline>'',
     ''Pivot.add_pivot_function(\<newline>'',
     ''    func=my_func,\<newline>'',
     ''    container="change_case",\<newline>'',
     ''    input_type="value",\<newline>'',
     ''    entity_map={"Host": "HostName"},\<newline>'',
     ''    func_input_value_arg="input",\<newline>'',
     ''    func_new_name="upper_name",\<newline>'',
     '')\<newline>'',
     ''```\<newline>'',
     ''\<newline>'',
     ''- Alternatively, use the `PivotRegistration` class:\<newline>'',
     ''\<newline>'',
     ''```python\<newline>'',
     ''from msticpy.init.pivot_core.pivot_register import PivotRegistration\<newline>'',
     ''\<newline>'',
     ''def my_func(input: str):\<newline>'',
     ''    return input.upper()\<newline>'',
     ''\<newline>'',
     ''piv_reg = PivotRegistration(\<newline>'',
     ''    input_type="value",\<newline>'',
     ''    entity_map={"Host": "HostName"},\<newline>'',
     ''    func_input_value_arg="input",\<newline>'',
     ''    func_new_name="upper_name"\<newline>'',
     '')\<newline>'',
     ''Pivot.add_pivot_function(my_func, piv_reg, container="change_case")\<newline>'',
     ''```\<newline>'',
     ''\<newline>'',
     ''**Running Pivots in DataFrame Pipelines:**\<newline>'',
     ''\<newline>'',
     ''```python\<newline>'',
     ''(\<newline>'',
     ''    my_df\<newline>'',
     ''    .query("UserCount > 1")\<newline>'',
     ''    .mp_pivot.run(IpAddress.util.whois, column="Ioc")\<newline>'',
     ''    .drop_duplicates()\<newline>'',
     '')\<newline>'',
     ''```\<newline>'',
     ''\<newline>'',
     ''- Use `mp_pivot.run` to integrate pivot functions into DataFrame processing pipelines.\<newline>'',
     ''- Join input and output DataFrames with the `join` parameter in `mp_pivot.run`.\<newline>'',
     ''\<newline>'',
     ''**Debugging Tools:**\<newline>'',
     ''\<newline>'',
     ''- `mp_pivot.display` for intermediate results.\<newline>'',
     ''- `mp_pivot.tee` for creating snapshots.\<newline>'',
     ''- `mp_pivot.tee_exec` for executing intermediate operations (e.g., plotting).\<newline>'',
     ''\<newline>'',
     ''Sources: C:'' @ [BS, BS] @ ''Users'' @ [BS, BS] @ ''t-egarcia'' @ [BS, BS] @ ''Documents'' @ [BS, BS] @ ''Forked MSTICpy Repo'' @ [BS, BS] @ ''msticpy'' @ [BS, BS] @ ''docs'' @ [BS, BS] @ ''source'' @ [BS, BS] @ ''extending'' @ [BS, BS] @ ''PivotFunctions.rst, C:'' @ [BS, BS] @ ''Users'' @ [BS, BS] @ ''t-egarcia'' @ [BS, BS] @ ''Documents'' @ [BS, BS] @ ''Forked MSTICpy Repo'' @ [BS, BS] @ ''msticpy'' @ [BS, BS] @ ''docs'' @ [BS, BS] @ ''source'' @ [BS, BS] @ ''data_analysis'' @ [BS, BS] @ ''PivotFunctions.rst, C:'' @ [BS, BS] @ ''Users'' @ [BS, BS] @ ''t-egarcia'' @ [BS, BS] @ ''Documents'' @ [BS, BS] @ ''Forked MSTICpy Repo'' @ [BS, BS] @ ''msticpy'' @ [BS, BS] @ ''docs'' @ [BS, BS] @ ''source'' @ [BS, BS] @ ''api'' @ [BS, BS] @ ''msticpy.init.pivot.rst''])]\<close>

definition cell_12 :: cell where
  \<open>cell_12 = Code_cell (Some 11)
    [cell_12_output_0, cell_12_output_1]
    [''%%ask \<newline>'',
     ''How do I use pivot functions?'']\<close>

definition cell_13_output_0 :: cell_output where
  \<open>cell_13_output_0 = Display_data [(''text/markdown'',
    [''\<newline>'',
     ''**Question**: Which columns do I need in a dataframe to plot process trees?''])]\<close>

definition cell_13_output_1 :: cell_output where
  \<open>cell_13_output_1 = Display_data [(''text/markdown'',
    [''\<newline>'',
     ''**Answer**: To plot process trees, the required columns in a DataFrame are typically:\<newline>'',
     ''\<newline>'',
     ''1. `ParentProcessName`\<newline>'',
     ''2. `Process`\<newline>'',
     ''\<newline>'',
     ''Additional attributes such as `SubjectUserName`, `SubjectDomainName`, `SubjectLogonId`, `NewProcessName`, `CommandLine`, and `TimeGenerated` can be used for more detailed visualization and analysis.\<newline>'',
     ''\<newline>'',
     ''Sources: C:'' @ [BS] @ ''Users'' @ [BS] @ ''t-egarcia'' @ [BS] @ ''Documents'' @ [BS] @ ''Forked MSTICpy Repo'' @ [BS] @ ''msticpy'' @ [BS] @ ''docs'' @ [BS] @ ''source'' @ [BS] @ ''visualization'' @ [BS] @ ''NetworkGraph.rst''])]\<close>

definition cell_13 :: cell where
  \<open>cell_13 = Code_cell (Some 12)
    [cell_13_output_0, cell_13_output_1]
    [''%%ask \<newline>'',
     ''Which columns do I need in a dataframe to plot process trees?'']\<close>

definition cell_14_output_0 :: cell_output where
  \<open>cell_14_output_0 = Display_data [(''text/markdown'',
    [''\<newline>'',
     ''**Question**: What kind of visualizations does msticpy support?''])]\<close>

definition cell_14_output_1 :: cell_output where
  \<open>cell_14_output_1 = Display_data [(''text/markdown'',
    [''\<newline>'',
     ''**Answer**: MSTICPy supports various visualizations including interactive timelines, process trees, multi-dimensional Morph Charts, data viewers, matrix plots, network plots, and several others listed under the `msticpy.vis` package.\<newline>'',
     ''\<newline>'',
     ''Sources: C:'' @ [BS] @ ''Users'' @ [BS] @ ''t-egarcia'' @ [BS] @ ''Documents'' @ [BS] @ ''Forked MSTICpy Repo'' @ [BS] @ ''msticpy'' @ [BS] @ ''docs'' @ [BS] @ ''source'' @ [BS] @ ''index.rst, C:'' @ [BS] @ ''Users'' @ [BS] @ ''t-egarcia'' @ [BS] @ ''Documents'' @ [BS] @ ''Forked MSTICpy Repo'' @ [BS] @ ''msticpy'' @ [BS] @ ''docs'' @ [BS] @ ''source'' @ [BS] @ ''visualization'' @ [BS] @ ''MorphCharts.rst''])]\<close>

definition cell_14 :: cell where
  \<open>cell_14 = Code_cell (Some 13)
    [cell_14_output_0, cell_14_output_1]
    [''%%ask \<newline>'',
     ''What kind of visualizations does msticpy support?'']\<close>

definition cell_15_output_0 :: cell_output where
  \<open>cell_15_output_0 = Display_data [(''text/markdown'',
    [''\<newline>'',
     ''**Question**: How do I add a new query for Microsoft 365 Defender to msticpy?''])]\<close>

definition cell_15_output_1 :: cell_output where
  \<open>cell_15_output_1 = Display_data [(''text/markdown'',
    [''\<newline>'',
     ''**Answer**: To add a new query for Microsoft 365 Defender (M365D) to MSTICPy, you should use the `QueryProvider` class. Here\'s a step-by-step guide on how to achieve it:\<newline>'',
     ''\<newline>'',
     ''1. **Initialize the `QueryProvider` for M365D**:\<newline>'',
     ''   ```python\<newline>'',
     ''   from msticpy.data import QueryProvider\<newline>'',
     ''\<newline>'',
     ''   mdatp_prov = QueryProvider("M365D")\<newline>'',
     ''   ```\<newline>'',
     ''\<newline>'',
     ''2. **Connect to the M365 Defender API**:\<newline>'',
     ''   ```python\<newline>'',
     ''   mdatp_prov.connect()\<newline>'',
     ''   ```\<newline>'',
     ''\<newline>'',
     ''3. **Add your new query**:\<newline>'',
     ''   You can add new queries to the query store of `QueryProvider`. Here'' @ [CHR 0xE2, CHR 0x80, CHR 0x99] @ ''s an example of how to define and add a new query:\<newline>'',
     ''   ```python\<newline>'',
     ''   new_query = """\<newline>'',
     ''   DeviceEvents\<newline>'',
     ''   | where ActionType == "FileCreated"\<newline>'',
     ''   | limit 10\<newline>'',
     ''   """\<newline>'',
     ''   mdatp_prov.add_query("GetRecentFileCreatedEvents", new_query)\<newline>'',
     ''   ```\<newline>'',
     ''\<newline>'',
     ''4. **Run the newly added query**:\<newline>'',
     ''   ```python\<newline>'',
     ''   results = mdatp_prov.exec_query("GetRecentFileCreatedEvents")\<newline>'',
     ''   print(results)\<newline>'',
     ''   ```\<newline>'',
     ''\<newline>'',
     ''In summary, you need to instantiate a `QueryProvider` object for M365D, connect to the API, add the new query, and then execute the query.\<newline>'',
     ''\<newline>'',
     ''Sources: C:'' @ [BS] @ ''Users'' @ [BS] @ ''t-egarcia'' @ [BS] @ ''Documents'' @ [BS] @ ''Forked MSTICpy Repo'' @ [BS] @ ''msticpy'' @ [BS] @ ''docs'' @ [BS] @ ''source'' @ [BS] @ ''data_acquisition'' @ [BS] @ ''DataProv-MSDefender.rst''])]\<close>

definition cell_15 :: cell where
  \<open>cell_15 = Code_cell (Some 14)
    [cell_15_output_0, cell_15_output_1]
    [''%%ask \<newline>'',
     ''How do I add a new query for Microsoft 365 Defender to msticpy?'']\<close>

definition cell_16_output_0 :: cell_output where
  \<open>cell_16_output_0 = Display_data [(''text/markdown'',
    [''\<newline>'',
     ''**Question**: Which msticpy module contains the code related to visualizing network graphs?''])]\<close>

definition cell_16_output_1 :: cell_output where
  \<open>cell_16_output_1 = Display_data [(''text/markdown'',
    [''\<newline>'',
     ''**Answer**: The MSTICpy module that contains the code related to visualizing network graphs is `msticpy.vis.network_plot`.\<newline>'',
     ''\<newline>'',
     ''Sources: C:'' @ [BS, BS] @ ''Users'' @ [BS, BS] @ ''t-egarcia'' @ [BS, BS] @ ''Documents'' @ [BS, BS] @ ''Forked MSTICpy Repo'' @ [BS, BS] @ ''msticpy'' @ [BS, BS] @ ''docs'' @ [BS, BS] @ ''source'' @ [BS, BS] @ ''api'' @ [BS, BS] @ ''msticpy.vis.network_plot.rst''])]\<close>

definition cell_16 :: cell where
  \<open>cell_16 = Code_cell (Some 15)
    [cell_16_output_0, cell_16_output_1]
    [''%%ask\<newline>'',
     ''Which msticpy module contains the code related to visualizing network graphs?'']\<close>

definition RagAgent :: notebook where
  \<open>RagAgent = \<lparr>
    cells = [cell_0, cell_1, cell_2, cell_3, cell_4, cell_5,
      cell_6, cell_7, cell_8, cell_9, cell_10, cell_11,
      cell_12, cell_13, cell_14, cell_15, cell_16],
    metadata = JObject
       [(''kernelspec'', JObject
         [(''display_name'', JString ''internshipenv''),
          (''language'', JString ''python''),
          (''name'', JString ''python3'')]),
        (''language_info'', JObject
         [(''codemirror_mode'', JObject
           [(''name'', JString ''ipython''),
            (''version'', JNumber 3)]),
          (''file_extension'', JString ''.py''),
          (''mimetype'', JString ''text/x-python''),
          (''name'', JString ''python''),
          (''nbconvert_exporter'', JString ''python''),
          (''pygments_lexer'', JString ''ipython3''),
          (''version'', JString ''3.10.14'')])],
    nbformat = 4,
    nbformat_minor = 2\<rparr>\<close>

text \<open>The files of the repository, by their paths from its root.\<close>

definition repository_files :: "string list" where
  "repository_files = [''docs/notebooks/RagAgent.ipynb'']"

section \<open>Reading the notebook\<close>

subsection \<open>Cells and their magics\<close>

fun is_code :: "cell \<Rightarrow> bool" where
  "is_code (Code_cell n os src) = True"
| "is_code (Markdown_cell src) = False"

definition code_cells :: "notebook \<Rightarrow> cell list" where
  "code_cells nb = filter is_code (cells nb)"

definition execution_counts :: "notebook \<Rightarrow> int list" where
  "execution_counts nb = List.map_filter execution_count (code_cells nb)"

definition is_space :: "char \<Rightarrow> bool" where
  "is_space c = (c = CHR '' '' \<or> c = CHR 0x0A \<or> c = CHR 0x09 \<or> c = CHR 0x0D)"

definition lstrip :: "string \<Rightarrow> string" where
  "lstrip s = dropWhile is_space s"

definition rstrip :: "string \<Rightarrow> string" where
  "rstrip s = rev (dropWhile is_space (rev s))"

definition strip :: "string \<Rightarrow> string" where
  "strip s = rstrip (lstrip s)"

definition blank_line :: "string \<Rightarrow> bool" where
  "blank_line l = list_all is_space l"

text \<open>
  The name of a magic is the first word of its line, and its argument the rest of
  the line. A cell whose first line names the cell magic \<^verbatim>\<open>%%ask\<close> hands its
  remaining lines, the question, to that magic.
\<close>

definition magic_name :: "string \<Rightarrow> string" where
  "magic_name l = takeWhile (\<lambda>c. \<not> is_space c) l"

definition magic_args :: "string \<Rightarrow> string" where
  "magic_args l = strip (dropWhile (\<lambda>c. \<not> is_space c) l)"

fun is_ask_cell :: "cell \<Rightarrow> bool" where
  "is_ask_cell (Code_cell n os (l # ls)) = (magic_name l = ''%%ask'')"
| "is_ask_cell (Code_cell n os []) = False"
| "is_ask_cell (Markdown_cell src) = False"

definition ask_cells :: "notebook \<Rightarrow> cell list" where
  "ask_cells nb = filter is_ask_cell (cells nb)"

definition question :: "cell \<Rightarrow> string" where
  "question c = concat (tl (source c))"

text \<open>
  The lines of a code cell that are neither blank nor a comment; a cell loads an
  extension when one of them is the line magic \<^verbatim>\<open>%load_ext\<close> or \<^verbatim>\<open>%reload_ext\<close>.
  The file a dotted module name stands for, relative to the repository's root.
\<close>

definition is_comment :: "string \<Rightarrow> bool" where
  "is_comment l = prefix ''#'' (lstrip l)"

definition executable_lines :: "cell \<Rightarrow> string list" where
  "executable_lines c = filter (\<lambda>l. \<not> (blank_line l \<or> is_comment l)) (source c)"

definition loads_extension :: "cell \<Rightarrow> bool" where
  "loads_extension c =
     list_ex (\<lambda>l. magic_name l = ''%load_ext'' \<or> magic_name l = ''%reload_ext'')
       (executable_lines c)"

definition module_path :: "string \<Rightarrow> string" where
  "module_path m = map (\<lambda>c. if c = CHR ''.'' then CHR ''/'' else c) m"

text \<open>
  What reaches the Python interpreter: nothing of a cell that starts with a cell
  magic (its body goes to the magic), and otherwise the executable lines that are
  not line magics.
\<close>

definition is_cell_magic :: "cell \<Rightarrow> bool" where
  "is_cell_magic c = (case source c of [] \<Rightarrow> False | l # ls \<Rightarrow> prefix ''%%'' l)"

definition python_lines :: "cell \<Rightarrow> string list" where
  "python_lines c =
     (if is_cell_magic c then []
      else filter (\<lambda>l. \<not> prefix ''%'' (lstrip l)) (executable_lines c))"

text \<open>
  A free-text question: one line of words (letters, digits, spaces, full stops)
  that ends in a question mark.
\<close>

definition is_word_char :: "char \<Rightarrow> bool" where
  "is_word_char c =
     (let n = (of_char c :: nat)
      in (65 \<le> n \<and> n \<le> 90) \<or> (97 \<le> n \<and> n \<le> 122) \<or> (48 \<le> n \<and> n \<le> 57)
         \<or> c = CHR '' '' \<or> c = CHR ''.'')"

definition free_text_question :: "string \<Rightarrow> bool" where
  "free_text_question q =
     (case rev q of [] \<Rightarrow> False
      | c # r \<Rightarrow> c = CHR ''?'' \<and> r \<noteq> [] \<and> list_all is_word_char r)"

definition is_question_cell :: "cell \<Rightarrow> bool" where
  "is_question_cell c =
     (case source c of
        [m, q] \<Rightarrow> is_code c \<and> rstrip m = ''%%ask'' \<and> free_text_question q
      | _ \<Rightarrow> False)"

definition is_load_cell :: "cell \<Rightarrow> bool" where
  "is_load_cell c =
     (is_code c \<and> executable_lines c = [''%reload_ext msticpy.aiagents.mp_docs_rag_magic''])"

subsection \<open>Outputs\<close>

fun output_type :: "cell_output \<Rightarrow> string" where
  "output_type (Stream n ls) = ''stream''"
| "output_type (Display_data d) = ''display_data''"

fun output_lines :: "cell_output \<Rightarrow> string list" where
  "output_lines (Stream n ls) = ls"
| "output_lines (Display_data d) = concat (map snd d)"

definition cell_output_lines :: "cell \<Rightarrow> string list" where
  "cell_output_lines c = concat (map output_lines (outputs c))"

fun stream_lines_of :: "cell_output \<Rightarrow> string list" where
  "stream_lines_of (Stream n ls) = ls"
| "stream_lines_of (Display_data d) = []"

definition stream_lines :: "cell \<Rightarrow> string list" where
  "stream_lines c = concat (map stream_lines_of (outputs c))"

fun markdown_of :: "cell_output \<Rightarrow> string list option" where
  "markdown_of (Stream n ls) = None"
| "markdown_of (Display_data d) = map_of d ''text/markdown''"

definition display_blocks :: "cell \<Rightarrow> string list list" where
  "display_blocks c = List.map_filter markdown_of (outputs c)"

text \<open>
  Every recorded markdown block starts with an empty line, which a markdown renderer
  drops: the rendered block begins at the first line that is not blank.
\<close>

definition leading_line :: "string list \<Rightarrow> string option" where
  "leading_line ls = (case ls of [] \<Rightarrow> None | l # rest \<Rightarrow> Some l)"

definition rendered :: "string list \<Rightarrow> string list" where
  "rendered ls = dropWhile blank_line ls"

definition begins_with :: "string \<Rightarrow> string list \<Rightarrow> bool" where
  "begins_with p ls = (case rendered ls of [] \<Rightarrow> False | l # rest \<Rightarrow> prefix p l)"

definition question_then_answer :: "cell \<Rightarrow> bool" where
  "question_then_answer c =
     (case display_blocks c of
        [q, a] \<Rightarrow> begins_with ''**Question**:'' q \<and> begins_with ''**Answer**:'' a
      | _ \<Rightarrow> False)"

text \<open>
  The text of a block after its label: the lines of the rendered block, the first
  without the label; \<open>None\<close> when the block does not start with the label.
\<close>

definition after_label :: "string \<Rightarrow> string list \<Rightarrow> string list option" where
  "after_label p ls =
     (case rendered ls of
        [] \<Rightarrow> None
      | l # rest \<Rightarrow> if prefix p l then Some (drop (length p) l # rest) else None)"

definition echoed_question :: "cell \<Rightarrow> string list option" where
  "echoed_question c =
     (case display_blocks c of q # bs \<Rightarrow> after_label ''**Question**: '' q | [] \<Rightarrow> None)"

definition answer :: "cell \<Rightarrow> string list option" where
  "answer c =
     (case display_blocks c of [q, a] \<Rightarrow> after_label ''**Answer**: '' a | _ \<Rightarrow> None)"

text \<open>
  The answer that stands for insufficient context, as the markdown cell 6 of the
  notebook and the specification spell it.
\<close>

definition sentinel :: string where
  "sentinel = ''UPDATE_CONTEXT''"

subsection \<open>Searching text\<close>

primrec contains :: "string \<Rightarrow> string \<Rightarrow> bool" where
  "contains p [] = (p = [])"
| "contains p (c # s) = (prefix p (c # s) \<or> contains p s)"

primrec occurrences :: "string \<Rightarrow> string \<Rightarrow> nat" where
  "occurrences p [] = 0"
| "occurrences p (c # s) = (if prefix p (c # s) then 1 else 0) + occurrences p s"

definition chunk_reports :: "cell \<Rightarrow> string list" where
  "chunk_reports c = filter (contains ''chunk'') (cell_output_lines c)"

definition ends_with :: "string \<Rightarrow> string \<Rightarrow> bool" where
  "ends_with p s = prefix (rev p) (rev s)"

subsection \<open>Source citations\<close>

text \<open>
  A citation line is \<^verbatim>\<open>Sources:\<close> followed by the cited files, separated by commas;
  a file may be set as a markdown code span, between backquotes, which are not part
  of its name.
\<close>

primrec split :: "char \<Rightarrow> string \<Rightarrow> string list" where
  "split d [] = [[]]"
| "split d (c # s) =
     (if c = d then [] # split d s
      else (case split d s of [] \<Rightarrow> [[c]] | w # ws \<Rightarrow> (c # w) # ws))"

definition is_code_span :: "string \<Rightarrow> bool" where
  "is_code_span s = (2 \<le> length s \<and> hd s = CHR 0x60 \<and> last s = CHR 0x60)"

definition code_span_text :: "string \<Rightarrow> string" where
  "code_span_text s = (if is_code_span s then butlast (tl s) else s)"

definition is_sources_line :: "string \<Rightarrow> bool" where
  "is_sources_line l = prefix ''Sources:'' l"

definition listed_entries :: "string \<Rightarrow> string list" where
  "listed_entries l = map strip (split (CHR '','') (drop 8 l))"

definition cited_files :: "string \<Rightarrow> string list" where
  "cited_files l = map code_span_text (listed_entries l)"

definition sources_lines :: "cell \<Rightarrow> string list" where
  "sources_lines c = filter is_sources_line (concat (display_blocks c))"

definition cites_rst_only :: "string \<Rightarrow> bool" where
  "cites_rst_only l = list_all (\<lambda>f. ends_with ''.rst'' f \<and> 4 < length f) (cited_files l)"

definition cites_sources_last :: "cell \<Rightarrow> bool" where
  "cites_sources_last c =
     (case display_blocks c of
        [q, a] \<Rightarrow> a \<noteq> [] \<and> is_sources_line (last a) \<and> cites_rst_only (last a)
      | _ \<Rightarrow> False)"

subsection \<open>Execution order\<close>

fun consecutive :: "int list \<Rightarrow> bool" where
  "consecutive (a # b # xs) = (b = a + 1 \<and> consecutive (b # xs))"
| "consecutive xs = True"

fun strictly_increasing :: "int list \<Rightarrow> bool" where
  "strictly_increasing (a # b # xs) = (a < b \<and> strictly_increasing (b # xs))"
| "strictly_increasing xs = True"

fun gaps :: "int list \<Rightarrow> (int \<times> int) list" where
  "gaps (a # b # xs) = (if b = a + 1 then gaps (b # xs) else (a, b) # gaps (b # xs))"
| "gaps xs = []"

section \<open>What the reading functions mean\<close>

lemma contains_iff: "contains p s \<longleftrightarrow> (\<exists>a b. s = a @ p @ b)"
proof (induction s)
  case Nil
  then show ?case by auto
next
  case (Cons c s)
  have "(\<exists>a b. c # s = a @ p @ b) \<longleftrightarrow> prefix p (c # s) \<or> (\<exists>a b. s = a @ p @ b)"
  proof
    assume "\<exists>a b. c # s = a @ p @ b"
    then obtain a b where ab: "c # s = a @ p @ b" by blast
    show "prefix p (c # s) \<or> (\<exists>a b. s = a @ p @ b)"
    proof (cases a)
      case Nil
      with ab show ?thesis by (auto simp: prefix_def)
    next
      case (Cons x a')
      with ab have "s = a' @ p @ b" by simp
      then show ?thesis by blast
    qed
  next
    assume "prefix p (c # s) \<or> (\<exists>a b. s = a @ p @ b)"
    then show "\<exists>a b. c # s = a @ p @ b"
    proof
      assume "prefix p (c # s)"
      then obtain b where "c # s = p @ b" by (auto simp: prefix_def)
      then have "c # s = [] @ p @ b" by simp
      then show ?thesis by blast
    next
      assume "\<exists>a b. s = a @ p @ b"
      then obtain a b where "s = a @ p @ b" by blast
      then have "c # s = (c # a) @ p @ b" by simp
      then show ?thesis by blast
    qed
  qed
  with Cons.IH show ?case by simp
qed

lemma consecutive_iff_no_gaps: "consecutive xs \<longleftrightarrow> gaps xs = []"
  by (induction xs rule: gaps.induct) auto

lemma consecutive_strictly_increasing: "consecutive xs \<Longrightarrow> strictly_increasing xs"
  by (induction xs rule: consecutive.induct) auto

lemma split_not_Nil: "split d s \<noteq> []"
  by (induction s) (auto split: list.splits)

lemma split_join: "concat (map (\<lambda>w. d # w) (split d s)) = d # s"
  by (induction s) (auto split: list.splits simp: split_not_Nil)

lemma ends_with_iff: "ends_with p s \<longleftrightarrow> (\<exists>a. s = a @ p)"
  by (simp add: ends_with_def flip: suffix_to_prefix) (auto simp: suffix_def)

section \<open>The structure of the notebook\<close>

lemmas cell_defs = cell_0_def cell_1_def cell_2_def cell_3_def cell_4_def cell_5_def cell_6_def
  cell_7_def cell_8_def cell_9_def cell_10_def cell_11_def cell_12_def cell_13_def cell_14_def
  cell_15_def cell_16_def

lemmas output_defs = cell_3_output_0_def cell_3_output_1_def cell_3_output_2_def
  cell_4_output_0_def cell_4_output_1_def cell_5_output_0_def cell_5_output_1_def
  cell_7_output_0_def cell_7_output_1_def cell_8_output_0_def cell_8_output_1_def
  cell_9_output_0_def cell_9_output_1_def cell_10_output_0_def cell_10_output_1_def
  cell_11_output_0_def cell_11_output_1_def cell_12_output_0_def cell_12_output_1_def
  cell_13_output_0_def cell_13_output_1_def cell_14_output_0_def cell_14_output_1_def
  cell_15_output_0_def cell_15_output_1_def cell_16_output_0_def cell_16_output_1_def

lemmas line_defs = is_space_def lstrip_def rstrip_def strip_def blank_line_def magic_name_def
  magic_args_def is_comment_def

lemmas block_defs = display_blocks_def List.map_filter_simps rendered_def blank_line_def
  is_space_def

lemma cells_RagAgent:
  "cells RagAgent = [cell_0, cell_1, cell_2, cell_3, cell_4, cell_5, cell_6, cell_7, cell_8,
     cell_9, cell_10, cell_11, cell_12, cell_13, cell_14, cell_15, cell_16]"
  by (simp add: RagAgent_def)

lemma is_code_cells:
  "\<not> is_code cell_0" "\<not> is_code cell_1" "is_code cell_2" "is_code cell_3" "is_code cell_4"
  "is_code cell_5" "\<not> is_code cell_6" "is_code cell_7" "is_code cell_8" "is_code cell_9"
  "is_code cell_10" "is_code cell_11" "is_code cell_12" "is_code cell_13" "is_code cell_14"
  "is_code cell_15" "is_code cell_16"
  by (simp_all add: cell_defs)

lemma code_cells_RagAgent:
  "code_cells RagAgent = [cell_2, cell_3, cell_4, cell_5, cell_7, cell_8, cell_9, cell_10,
     cell_11, cell_12, cell_13, cell_14, cell_15, cell_16]"
  by (simp add: code_cells_def cells_RagAgent is_code_cells)

lemma is_ask_cell_cells:
  "\<not> is_ask_cell cell_0" "\<not> is_ask_cell cell_1" "\<not> is_ask_cell cell_2" "is_ask_cell cell_3"
  "is_ask_cell cell_4" "is_ask_cell cell_5" "\<not> is_ask_cell cell_6" "is_ask_cell cell_7"
  "is_ask_cell cell_8" "is_ask_cell cell_9" "is_ask_cell cell_10" "is_ask_cell cell_11"
  "is_ask_cell cell_12" "is_ask_cell cell_13" "is_ask_cell cell_14" "is_ask_cell cell_15"
  "is_ask_cell cell_16"
  by (simp_all add: cell_defs magic_name_def is_space_def)

lemma ask_cells_RagAgent:
  "ask_cells RagAgent = [cell_3, cell_4, cell_5, cell_7, cell_8, cell_9, cell_10, cell_11,
     cell_12, cell_13, cell_14, cell_15, cell_16]"
  by (simp add: ask_cells_def cells_RagAgent is_ask_cell_cells)

lemma loads_extension_cells:
  "\<not> loads_extension cell_0" "\<not> loads_extension cell_1" "loads_extension cell_2"
  "\<not> loads_extension cell_3" "\<not> loads_extension cell_4" "\<not> loads_extension cell_5"
  "\<not> loads_extension cell_6" "\<not> loads_extension cell_7" "\<not> loads_extension cell_8"
  "\<not> loads_extension cell_9" "\<not> loads_extension cell_10" "\<not> loads_extension cell_11"
  "\<not> loads_extension cell_12" "\<not> loads_extension cell_13" "\<not> loads_extension cell_14"
  "\<not> loads_extension cell_15" "\<not> loads_extension cell_16"
  by (simp_all add: loads_extension_def executable_lines_def line_defs cell_defs)

lemma execution_count_cells:
  "execution_count cell_2 = Some 16" "execution_count cell_3 = Some 2"
  "execution_count cell_4 = Some 3" "execution_count cell_5 = Some 4"
  "execution_count cell_7 = Some 5" "execution_count cell_8 = Some 6"
  "execution_count cell_9 = Some 7" "execution_count cell_10 = Some 9"
  "execution_count cell_11 = Some 10" "execution_count cell_12 = Some 11"
  "execution_count cell_13 = Some 12" "execution_count cell_14 = Some 13"
  "execution_count cell_15 = Some 14" "execution_count cell_16 = Some 15"
  by (simp_all add: cell_defs)

lemma output_types_cells:
  "map output_type (outputs cell_0) = []" "map output_type (outputs cell_1) = []"
  "map output_type (outputs cell_2) = []" "map output_type (outputs cell_6) = []"
  "map output_type (outputs cell_3) = [''stream'', ''display_data'', ''display_data'']"
  "map output_type (outputs cell_4) = [''display_data'', ''display_data'']"
  "map output_type (outputs cell_5) = [''display_data'', ''display_data'']"
  "map output_type (outputs cell_7) = [''display_data'', ''display_data'']"
  "map output_type (outputs cell_8) = [''display_data'', ''display_data'']"
  "map output_type (outputs cell_9) = [''display_data'', ''display_data'']"
  "map output_type (outputs cell_10) = [''display_data'', ''display_data'']"
  "map output_type (outputs cell_11) = [''display_data'', ''display_data'']"
  "map output_type (outputs cell_12) = [''display_data'', ''display_data'']"
  "map output_type (outputs cell_13) = [''display_data'', ''display_data'']"
  "map output_type (outputs cell_14) = [''display_data'', ''display_data'']"
  "map output_type (outputs cell_15) = [''display_data'', ''display_data'']"
  "map output_type (outputs cell_16) = [''display_data'', ''display_data'']"
  by (simp_all add: cell_defs output_defs)

lemma outputs_empty_cells:
  "outputs cell_0 = []" "outputs cell_1 = []" "outputs cell_2 = []" "outputs cell_6 = []"
  "outputs cell_3 \<noteq> []" "outputs cell_4 \<noteq> []" "outputs cell_5 \<noteq> []" "outputs cell_7 \<noteq> []"
  "outputs cell_8 \<noteq> []" "outputs cell_9 \<noteq> []" "outputs cell_10 \<noteq> []" "outputs cell_11 \<noteq> []"
  "outputs cell_12 \<noteq> []" "outputs cell_13 \<noteq> []" "outputs cell_14 \<noteq> []" "outputs cell_15 \<noteq> []"
  "outputs cell_16 \<noteq> []"
  by (simp_all add: cell_defs)

section \<open>The recorded questions and answers\<close>

lemma question_then_answer_cells:
  "question_then_answer cell_3" "question_then_answer cell_4" "question_then_answer cell_5"
  "question_then_answer cell_7" "question_then_answer cell_8" "question_then_answer cell_9"
  "question_then_answer cell_10" "question_then_answer cell_11" "question_then_answer cell_12"
  "question_then_answer cell_13" "question_then_answer cell_14" "question_then_answer cell_15"
  "question_then_answer cell_16"
  by (simp_all add: question_then_answer_def begins_with_def block_defs cell_defs output_defs)

lemma leading_lines_cells:
  "map leading_line (display_blocks cell_3) = [Some ''\<newline>'', Some ''\<newline>'']"
  "map leading_line (display_blocks cell_4) = [Some ''\<newline>'', Some ''\<newline>'']"
  "map leading_line (display_blocks cell_5) = [Some ''\<newline>'', Some ''\<newline>'']"
  "map leading_line (display_blocks cell_7) = [Some ''\<newline>'', Some ''\<newline>'']"
  "map leading_line (display_blocks cell_8) = [Some ''\<newline>'', Some ''\<newline>'']"
  "map leading_line (display_blocks cell_9) = [Some ''\<newline>'', Some ''\<newline>'']"
  "map leading_line (display_blocks cell_10) = [Some ''\<newline>'', Some ''\<newline>'']"
  "map leading_line (display_blocks cell_11) = [Some ''\<newline>'', Some ''\<newline>'']"
  "map leading_line (display_blocks cell_12) = [Some ''\<newline>'', Some ''\<newline>'']"
  "map leading_line (display_blocks cell_13) = [Some ''\<newline>'', Some ''\<newline>'']"
  "map leading_line (display_blocks cell_14) = [Some ''\<newline>'', Some ''\<newline>'']"
  "map leading_line (display_blocks cell_15) = [Some ''\<newline>'', Some ''\<newline>'']"
  "map leading_line (display_blocks cell_16) = [Some ''\<newline>'', Some ''\<newline>'']"
  by (simp_all add: leading_line_def block_defs cell_defs output_defs)

lemma echoed_question_cells:
  "echoed_question cell_3 = Some [question cell_3]"
  "echoed_question cell_4 = Some [question cell_4]"
  "echoed_question cell_5 = Some [question cell_5]"
  "echoed_question cell_7 = Some [question cell_7]"
  "echoed_question cell_8 = Some [question cell_8]"
  "echoed_question cell_9 = Some [question cell_9]"
  "echoed_question cell_10 = Some [question cell_10]"
  "echoed_question cell_11 = Some [question cell_11]"
  "echoed_question cell_12 = Some [question cell_12]"
  "echoed_question cell_13 = Some [question cell_13]"
  "echoed_question cell_14 = Some [question cell_14]"
  "echoed_question cell_15 = Some [question cell_15]"
  "echoed_question cell_16 = Some [question cell_16]"
  by (simp_all add: echoed_question_def question_def after_label_def block_defs cell_defs
      output_defs)

lemma answer_cell_7: "answer cell_7 = Some [''UPDATE CONTEXT'']"
  by (simp add: answer_def after_label_def block_defs cell_7_def output_defs)

lemma answer_cells_written:
  "answer cell_3 \<noteq> Some [''UPDATE CONTEXT'']" "answer cell_4 \<noteq> Some [''UPDATE CONTEXT'']"
  "answer cell_5 \<noteq> Some [''UPDATE CONTEXT'']" "answer cell_8 \<noteq> Some [''UPDATE CONTEXT'']"
  "answer cell_9 \<noteq> Some [''UPDATE CONTEXT'']" "answer cell_10 \<noteq> Some [''UPDATE CONTEXT'']"
  "answer cell_11 \<noteq> Some [''UPDATE CONTEXT'']" "answer cell_12 \<noteq> Some [''UPDATE CONTEXT'']"
  "answer cell_13 \<noteq> Some [''UPDATE CONTEXT'']" "answer cell_14 \<noteq> Some [''UPDATE CONTEXT'']"
  "answer cell_15 \<noteq> Some [''UPDATE CONTEXT'']" "answer cell_16 \<noteq> Some [''UPDATE CONTEXT'']"
  by (simp_all add: answer_def after_label_def block_defs cell_defs output_defs)

lemma answer_cells_not_sentinel:
  "answer cell_3 \<noteq> Some [sentinel]" "answer cell_4 \<noteq> Some [sentinel]"
  "answer cell_5 \<noteq> Some [sentinel]" "answer cell_7 \<noteq> Some [sentinel]"
  "answer cell_8 \<noteq> Some [sentinel]" "answer cell_9 \<noteq> Some [sentinel]"
  "answer cell_10 \<noteq> Some [sentinel]" "answer cell_11 \<noteq> Some [sentinel]"
  "answer cell_12 \<noteq> Some [sentinel]" "answer cell_13 \<noteq> Some [sentinel]"
  "answer cell_14 \<noteq> Some [sentinel]" "answer cell_15 \<noteq> Some [sentinel]"
  "answer cell_16 \<noteq> Some [sentinel]"
  by (simp_all add: sentinel_def answer_def after_label_def block_defs cell_defs output_defs)

lemma sources_lines_cells:
  "sources_lines cell_0 = []" "sources_lines cell_1 = []" "sources_lines cell_2 = []"
  "sources_lines cell_6 = []" "sources_lines cell_7 = []"
  "length (sources_lines cell_3) = 1" "length (sources_lines cell_4) = 1"
  "length (sources_lines cell_5) = 1" "length (sources_lines cell_8) = 1"
  "length (sources_lines cell_9) = 1" "length (sources_lines cell_10) = 1"
  "length (sources_lines cell_11) = 1" "length (sources_lines cell_12) = 1"
  "length (sources_lines cell_13) = 1" "length (sources_lines cell_14) = 1"
  "length (sources_lines cell_15) = 1" "length (sources_lines cell_16) = 1"
  by (simp_all add: sources_lines_def is_sources_line_def block_defs cell_defs output_defs)

lemma cited_files_cells:
  "map (\<lambda>l. length (cited_files l)) (sources_lines cell_3) = [1]"
  "map (\<lambda>l. length (cited_files l)) (sources_lines cell_4) = [1]"
  "map (\<lambda>l. length (cited_files l)) (sources_lines cell_5) = [1]"
  "map (\<lambda>l. length (cited_files l)) (sources_lines cell_8) = [1]"
  "map (\<lambda>l. length (cited_files l)) (sources_lines cell_9) = [3]"
  "map (\<lambda>l. length (cited_files l)) (sources_lines cell_10) = [1]"
  "map (\<lambda>l. length (cited_files l)) (sources_lines cell_11) = [1]"
  "map (\<lambda>l. length (cited_files l)) (sources_lines cell_12) = [3]"
  "map (\<lambda>l. length (cited_files l)) (sources_lines cell_13) = [1]"
  "map (\<lambda>l. length (cited_files l)) (sources_lines cell_14) = [2]"
  "map (\<lambda>l. length (cited_files l)) (sources_lines cell_15) = [1]"
  "map (\<lambda>l. length (cited_files l)) (sources_lines cell_16) = [1]"
  by (simp_all add: cited_files_def listed_entries_def sources_lines_def is_sources_line_def block_defs cell_defs
      output_defs)

lemma cites_rst_only_cells:
  "list_all cites_rst_only (sources_lines cell_3)"
  "list_all cites_rst_only (sources_lines cell_4)"
  "list_all cites_rst_only (sources_lines cell_5)"
  "list_all cites_rst_only (sources_lines cell_8)"
  "list_all cites_rst_only (sources_lines cell_9)"
  "list_all cites_rst_only (sources_lines cell_10)"
  "list_all cites_rst_only (sources_lines cell_11)"
  "list_all cites_rst_only (sources_lines cell_12)"
  "list_all cites_rst_only (sources_lines cell_13)"
  "list_all cites_rst_only (sources_lines cell_14)"
  "list_all cites_rst_only (sources_lines cell_15)"
  "list_all cites_rst_only (sources_lines cell_16)"
  by (simp_all add: cites_rst_only_def cited_files_def listed_entries_def code_span_text_def is_code_span_def ends_with_def
      strip_def lstrip_def rstrip_def sources_lines_def is_sources_line_def block_defs
      cell_defs output_defs)

lemma code_span_cells:
  "\<not> list_ex (\<lambda>l. list_ex is_code_span (listed_entries l)) (sources_lines cell_3)"
  "\<not> list_ex (\<lambda>l. list_ex is_code_span (listed_entries l)) (sources_lines cell_4)"
  "\<not> list_ex (\<lambda>l. list_ex is_code_span (listed_entries l)) (sources_lines cell_5)"
  "\<not> list_ex (\<lambda>l. list_ex is_code_span (listed_entries l)) (sources_lines cell_8)"
  "\<not> list_ex (\<lambda>l. list_ex is_code_span (listed_entries l)) (sources_lines cell_9)"
  "list_ex (\<lambda>l. list_ex is_code_span (listed_entries l)) (sources_lines cell_10)"
  "\<not> list_ex (\<lambda>l. list_ex is_code_span (listed_entries l)) (sources_lines cell_11)"
  "\<not> list_ex (\<lambda>l. list_ex is_code_span (listed_entries l)) (sources_lines cell_12)"
  "\<not> list_ex (\<lambda>l. list_ex is_code_span (listed_entries l)) (sources_lines cell_13)"
  "\<not> list_ex (\<lambda>l. list_ex is_code_span (listed_entries l)) (sources_lines cell_14)"
  "\<not> list_ex (\<lambda>l. list_ex is_code_span (listed_entries l)) (sources_lines cell_15)"
  "\<not> list_ex (\<lambda>l. list_ex is_code_span (listed_entries l)) (sources_lines cell_16)"
  by (simp_all add: listed_entries_def is_code_span_def strip_def lstrip_def rstrip_def
      sources_lines_def is_sources_line_def block_defs cell_defs output_defs)

lemma cites_sources_last_cells:
  "cites_sources_last cell_3" "cites_sources_last cell_4" "cites_sources_last cell_5"
  "\<not> cites_sources_last cell_7"
  "cites_sources_last cell_8" "cites_sources_last cell_9" "cites_sources_last cell_10"
  "cites_sources_last cell_11" "cites_sources_last cell_12" "cites_sources_last cell_13"
  "cites_sources_last cell_14" "cites_sources_last cell_15" "cites_sources_last cell_16"
  by (simp_all add: cites_sources_last_def cites_rst_only_def cited_files_def
      listed_entries_def code_span_text_def is_code_span_def ends_with_def strip_def lstrip_def rstrip_def is_sources_line_def
      block_defs cell_defs output_defs)

lemma mentions_of_sources_cells:
  "filter (contains ''Sources'') (cell_output_lines cell_0) = sources_lines cell_0"
  "filter (contains ''Sources'') (cell_output_lines cell_1) = sources_lines cell_1"
  "filter (contains ''Sources'') (cell_output_lines cell_2) = sources_lines cell_2"
  "filter (contains ''Sources'') (cell_output_lines cell_3) = sources_lines cell_3"
  "filter (contains ''Sources'') (cell_output_lines cell_4) = sources_lines cell_4"
  "filter (contains ''Sources'') (cell_output_lines cell_5) = sources_lines cell_5"
  "filter (contains ''Sources'') (cell_output_lines cell_6) = sources_lines cell_6"
  "filter (contains ''Sources'') (cell_output_lines cell_7) = sources_lines cell_7"
  "filter (contains ''Sources'') (cell_output_lines cell_8) = sources_lines cell_8"
  "filter (contains ''Sources'') (cell_output_lines cell_9) = sources_lines cell_9"
  "filter (contains ''Sources'') (cell_output_lines cell_10) = sources_lines cell_10"
  "filter (contains ''Sources'') (cell_output_lines cell_11) = sources_lines cell_11"
  "filter (contains ''Sources'') (cell_output_lines cell_12) = sources_lines cell_12"
  "filter (contains ''Sources'') (cell_output_lines cell_13) = sources_lines cell_13"
  "filter (contains ''Sources'') (cell_output_lines cell_14) = sources_lines cell_14"
  "filter (contains ''Sources'') (cell_output_lines cell_15) = sources_lines cell_15"
  "filter (contains ''Sources'') (cell_output_lines cell_16) = sources_lines cell_16"
  by (simp_all add: cell_output_lines_def sources_lines_def is_sources_line_def block_defs
      cell_defs output_defs)

section \<open>The chunk count\<close>

lemma chunk_reports_cells:
  "chunk_reports cell_0 = []" "chunk_reports cell_1 = []" "chunk_reports cell_2 = []"
  "chunk_reports cell_4 = []" "chunk_reports cell_5 = []" "chunk_reports cell_6 = []"
  "chunk_reports cell_7 = []" "chunk_reports cell_8 = []" "chunk_reports cell_9 = []"
  "chunk_reports cell_10 = []" "chunk_reports cell_11 = []" "chunk_reports cell_12 = []"
  "chunk_reports cell_13 = []" "chunk_reports cell_14 = []" "chunk_reports cell_15 = []"
  "chunk_reports cell_16 = []"
  by (simp_all add: chunk_reports_def cell_output_lines_def cell_defs output_defs)

lemma chunk_not_in_sources:
  "filter (contains ''chunk'') (concat (map source (cells RagAgent))) = []"
  by (simp add: cells_RagAgent cell_defs)

lemma chunk_reports_cell_3:
  "chunk_reports cell_3 \<noteq> []"
  "chunk_reports cell_3 = filter (contains ''Found 384 chunks.'') (stream_lines cell_3)"
  "map (occurrences ''chunk'') (chunk_reports cell_3) = [1]"
  by (simp_all add: chunk_reports_def cell_output_lines_def stream_lines_def cell_3_def
      output_defs)

section \<open>The code cells\<close>

lemma executable_lines_cell_2:
  "executable_lines cell_2 = [''%reload_ext msticpy.aiagents.mp_docs_rag_magic'']"
  by (simp add: executable_lines_def line_defs cell_2_def)

lemma comments_cell_2:
  "filter is_comment (source cell_2) =
     [''# %load_ext msticpy.aiagents.mp_docs_rag_magic\<newline>'', ''# Or use:\<newline>'']"
  by (simp add: line_defs cell_2_def)

lemma extension_is_external:
  "module_path (magic_args (hd (executable_lines cell_2))) = ''msticpy/aiagents/mp_docs_rag_magic''"
  "\<not> list_ex (prefix ''msticpy/aiagents/mp_docs_rag_magic'') repository_files"
  by (simp_all add: executable_lines_cell_2 module_path_def line_defs repository_files_def)

lemma is_load_cell_cells:
  "is_load_cell cell_2" "\<not> is_load_cell cell_3" "\<not> is_load_cell cell_4" "\<not> is_load_cell cell_5"
  "\<not> is_load_cell cell_7" "\<not> is_load_cell cell_8" "\<not> is_load_cell cell_9"
  "\<not> is_load_cell cell_10" "\<not> is_load_cell cell_11" "\<not> is_load_cell cell_12"
  "\<not> is_load_cell cell_13" "\<not> is_load_cell cell_14" "\<not> is_load_cell cell_15"
  "\<not> is_load_cell cell_16"
  by (simp_all add: is_load_cell_def executable_lines_def line_defs cell_defs)

lemma is_question_cell_cells:
  "\<not> is_question_cell cell_2" "is_question_cell cell_3" "is_question_cell cell_4"
  "is_question_cell cell_5" "is_question_cell cell_7" "is_question_cell cell_8"
  "is_question_cell cell_9" "is_question_cell cell_10" "is_question_cell cell_11"
  "is_question_cell cell_12" "is_question_cell cell_13" "is_question_cell cell_14"
  "is_question_cell cell_15" "is_question_cell cell_16"
  by (simp_all add: is_question_cell_def free_text_question_def is_word_char_def line_defs
      cell_defs)

lemma python_lines_cells:
  "python_lines cell_2 = []" "python_lines cell_3 = []" "python_lines cell_4 = []"
  "python_lines cell_5 = []" "python_lines cell_7 = []" "python_lines cell_8 = []"
  "python_lines cell_9 = []" "python_lines cell_10 = []" "python_lines cell_11 = []"
  "python_lines cell_12 = []" "python_lines cell_13 = []" "python_lines cell_14 = []"
  "python_lines cell_15 = []" "python_lines cell_16 = []"
  by (simp_all add: python_lines_def is_cell_magic_def executable_lines_def line_defs cell_defs)

lemma question_cell_7:
  "question cell_7 = ''Does the Splunk query provider support device code authentication?''"
  by (simp add: question_def cell_7_def)

lemma sentinel_named_by_cell_6:
  "list_ex (contains (''A response of `'' @ sentinel @ ''` indicates'')) (source cell_6)"
  by (simp add: sentinel_def cell_6_def)

section \<open>The claims\<close>

text \<open>
  C1. The claim: the one question whose retrieved context was insufficient (the Splunk
  device-code question) is answered with the literal \<^verbatim>\<open>UPDATE_CONTEXT\<close>. The markdown
  cell 6 of the notebook names that literal as the response that signals insufficient
  context, but the answer recorded under it is \<^verbatim>\<open>UPDATE CONTEXT\<close>, with a space:
  exactly one \<^verbatim>\<open>%%ask\<close> cell carries that answer, the Splunk question, and no cell's
  answer is the literal with the underscore.
\<close>

theorem insufficiency_answer_is_not_the_sentinel:
  "filter (\<lambda>c. answer c = Some [''UPDATE CONTEXT'']) (ask_cells RagAgent) = [cell_7]
   \<and> question cell_7 = ''Does the Splunk query provider support device code authentication?''
   \<and> filter (\<lambda>c. answer c = Some [sentinel]) (ask_cells RagAgent) = []
   \<and> list_ex (contains (''A response of `'' @ sentinel @ ''` indicates'')) (source cell_6)"
proof -
  have "filter (\<lambda>c. answer c = Some [''UPDATE CONTEXT'']) (ask_cells RagAgent) = [cell_7]"
    by (simp add: ask_cells_RagAgent answer_cell_7 answer_cells_written)
  moreover have "filter (\<lambda>c. answer c = Some [sentinel]) (ask_cells RagAgent) = []"
    by (simp add: ask_cells_RagAgent answer_cells_not_sentinel)
  ultimately show ?thesis
    using question_cell_7 sentinel_named_by_cell_6 by simp
qed

text \<open>
  C2. Each of the 13 \<^verbatim>\<open>%%ask\<close> cells has exactly two \<^verbatim>\<open>display_data\<close> outputs with
  markdown text; the first begins with \<^verbatim>\<open>**Question**:\<close> and the second with
  \<^verbatim>\<open>**Answer**:\<close>. The first line of every one of these blocks is the empty line that
  rendering drops, and the label follows it.
\<close>

theorem ask_cells_question_then_answer:
  "length (ask_cells RagAgent) = 13
   \<and> list_all question_then_answer (ask_cells RagAgent)
   \<and> list_all (\<lambda>c. map leading_line (display_blocks c) = [Some ''\<newline>'', Some ''\<newline>''])
        (ask_cells RagAgent)"
  by (simp add: ask_cells_RagAgent question_then_answer_cells leading_lines_cells)

text \<open>
  C3. The chunk count is reported once: the only cell with an output line that mentions
  chunks is the first \<^verbatim>\<open>%%ask\<close> cell; the lines that do are the lines of its stream
  output that hold \<^verbatim>\<open>Found 384 chunks.\<close>, and there is one such line, with one mention.
  No cell's source mentions chunks either.
\<close>

theorem chunk_count_reported_once:
  "filter (\<lambda>c. chunk_reports c \<noteq> []) (cells RagAgent) = [hd (ask_cells RagAgent)]
   \<and> chunk_reports (hd (ask_cells RagAgent)) =
       filter (contains ''Found 384 chunks.'') (stream_lines (hd (ask_cells RagAgent)))
   \<and> map (occurrences ''chunk'') (chunk_reports (hd (ask_cells RagAgent))) = [1]
   \<and> filter (contains ''chunk'') (concat (map source (cells RagAgent))) = []"
proof -
  have first: "hd (ask_cells RagAgent) = cell_3"
    by (simp add: ask_cells_RagAgent)
  have "filter (\<lambda>c. chunk_reports c \<noteq> []) (cells RagAgent) = [cell_3]"
    by (simp add: cells_RagAgent chunk_reports_cells chunk_reports_cell_3(1))
  with first show ?thesis
    using chunk_reports_cell_3(2,3) chunk_not_in_sources by simp
qed

text \<open>
  C4, as the claim states it, fails: the execution counts of the code cells, in document
  order, are not each one more than the one before.
\<close>

theorem execution_counts_not_consecutive:
  "\<not> consecutive (execution_counts RagAgent)"
  by (simp add: execution_counts_def code_cells_RagAgent List.map_filter_simps
      execution_count_cells)

text \<open>
  C4, amended. Every code cell has an execution count, and in document order they are
  16, 2, 3, 4, 5, 6, 7, 9, 10, 11, 12, 13, 14, 15. The count 16 is the extension-load
  cell's, the first code cell. The counts of the \<^verbatim>\<open>%%ask\<close> cells are strictly increasing,
  and consecutive but for one gap: 7 is followed by 9.
\<close>

theorem execution_counts_recorded:
  "map execution_count (code_cells RagAgent) =
     map Some [16, 2, 3, 4, 5, 6, 7, 9, 10, 11, 12, 13, 14, 15]
   \<and> map execution_count (filter loads_extension (code_cells RagAgent)) = [Some 16]
   \<and> strictly_increasing (List.map_filter execution_count (ask_cells RagAgent))
   \<and> gaps (List.map_filter execution_count (ask_cells RagAgent)) = [(7, 9)]"
  by (simp add: code_cells_RagAgent ask_cells_RagAgent loads_extension_cells
      List.map_filter_simps execution_count_cells)

text \<open>
  C5. Some \<^verbatim>\<open>%%ask\<close> cell's answer ends in a line that begins with \<^verbatim>\<open>Sources:\<close> and lists
  documentation files, and some \<^verbatim>\<open>%%ask\<close> cell, the one answered with the recorded
  insufficiency answer, has no \<^verbatim>\<open>Sources:\<close> line at all. Of the 13 cells, the fourth is
  the only one without the trailing citation.
\<close>

theorem sources_citation_sometimes:
  "list_ex cites_sources_last (ask_cells RagAgent)
   \<and> list_ex (\<lambda>c. answer c = Some [''UPDATE CONTEXT''] \<and> sources_lines c = [])
        (ask_cells RagAgent)
   \<and> map cites_sources_last (ask_cells RagAgent) =
       [True, True, True, False, True, True, True, True, True, True, True, True, True]"
  by (simp add: ask_cells_RagAgent cites_sources_last_cells answer_cell_7
      sources_lines_cells)

text \<open>
  C6. One code cell loads the extension. Its only executable line is
  \<^verbatim>\<open>%reload_ext msticpy.aiagents.mp_docs_rag_magic\<close>; its other lines are comments, the
  first a commented-out \<^verbatim>\<open>%load_ext\<close> of the same module. No file of the repository lies
  under the path that the module's name stands for.
\<close>

theorem extension_loaded_by_one_cell:
  "filter loads_extension (code_cells RagAgent) = [cell_2]
   \<and> executable_lines cell_2 = [''%reload_ext msticpy.aiagents.mp_docs_rag_magic'']
   \<and> filter is_comment (source cell_2) =
       [''# %load_ext msticpy.aiagents.mp_docs_rag_magic\<newline>'', ''# Or use:\<newline>'']
   \<and> length (source cell_2) = 3
   \<and> module_path (magic_args (hd (executable_lines cell_2))) =
       ''msticpy/aiagents/mp_docs_rag_magic''
   \<and> \<not> list_ex (prefix ''msticpy/aiagents/mp_docs_rag_magic'') repository_files"
proof -
  have "filter loads_extension (code_cells RagAgent) = [cell_2]"
    by (simp add: code_cells_RagAgent loads_extension_cells)
  moreover have "length (source cell_2) = 3"
    by (simp add: cell_2_def)
  ultimately show ?thesis
    using executable_lines_cell_2 comments_cell_2 extension_is_external by simp
qed

text \<open>
  C7. No code cell holds Python: each of the 14 code cells is either the extension-load
  cell (one) or a \<^verbatim>\<open>%%ask\<close> cell whose body is one line of free text ending in a question
  mark (thirteen), and no line of any of them reaches the Python interpreter.
\<close>

theorem no_python_in_code_cells:
  "list_all (\<lambda>c. is_load_cell c \<or> is_question_cell c) (code_cells RagAgent)
   \<and> length (filter is_load_cell (code_cells RagAgent)) = 1
   \<and> length (filter is_question_cell (code_cells RagAgent)) = 13
   \<and> concat (map python_lines (code_cells RagAgent)) = []"
  by (simp add: code_cells_RagAgent is_load_cell_cells is_question_cell_cells
      python_lines_cells)

text \<open>
  C8. For each of the 13 \<^verbatim>\<open>%%ask\<close> cells, the text after \<^verbatim>\<open>**Question**: \<close> in the first
  markdown block is, character for character, the text of the cell's source after its
  magic line.
\<close>

theorem question_block_echoes_source:
  "length (ask_cells RagAgent) = 13
   \<and> list_all (\<lambda>c. echoed_question c = Some [question c]) (ask_cells RagAgent)"
  by (simp add: ask_cells_RagAgent echoed_question_cells)

text \<open>
  C9. Every file cited in a \<^verbatim>\<open>Sources:\<close> line ends in \<^verbatim>\<open>.rst\<close>. Twelve cells have such a
  line, one each, citing 1, 1, 1, 1, 3, 1, 1, 3, 1, 2, 1 and 1 files. One cell, cell 10,
  sets its file between backquotes, as a code span, and the file is read without them.
  No other output line mentions \<^verbatim>\<open>Sources\<close>.
\<close>

theorem cited_files_are_rst:
  "list_all (\<lambda>c. list_all cites_rst_only (sources_lines c)) (cells RagAgent)
   \<and> map (\<lambda>c. map (\<lambda>l. length (cited_files l)) (sources_lines c)) (cells RagAgent) =
       [[], [], [], [1], [1], [1], [], [], [1], [3], [1], [1], [3], [1], [2], [1], [1]]
   \<and> filter (\<lambda>c. list_ex (\<lambda>l. list_ex is_code_span (listed_entries l)) (sources_lines c))
        (cells RagAgent) = [cell_10]
   \<and> list_all (\<lambda>c. filter (contains ''Sources'') (cell_output_lines c) = sources_lines c)
        (cells RagAgent)"
proof -
  have "list_all (\<lambda>c. list_all cites_rst_only (sources_lines c)) (cells RagAgent)"
    by (simp add: cells_RagAgent cites_rst_only_cells sources_lines_cells(1-5))
  moreover have "map (\<lambda>c. map (\<lambda>l. length (cited_files l)) (sources_lines c)) (cells RagAgent) =
      [[], [], [], [1], [1], [1], [], [], [1], [3], [1], [1], [3], [1], [2], [1], [1]]"
    by (simp add: cells_RagAgent cited_files_cells sources_lines_cells(1-5))
  moreover have "filter (\<lambda>c. list_ex (\<lambda>l. list_ex is_code_span (listed_entries l))
      (sources_lines c)) (cells RagAgent) = [cell_10]"
    by (simp add: cells_RagAgent code_span_cells sources_lines_cells(1-5))
  moreover have "list_all (\<lambda>c. filter (contains ''Sources'') (cell_output_lines c) =
      sources_lines c) (cells RagAgent)"
    by (simp add: cells_RagAgent mentions_of_sources_cells)
  ultimately show ?thesis by simp
qed

text \<open>
  C10. The extension-load cell has no outputs and each of the 13 \<^verbatim>\<open>%%ask\<close> cells has
  some; the cells with outputs are exactly the \<^verbatim>\<open>%%ask\<close> cells. The first of them has a
  stream output followed by two \<^verbatim>\<open>display_data\<close> outputs, and each of the twelve others
  has two \<^verbatim>\<open>display_data\<close> outputs and nothing else.
\<close>

theorem only_ask_cells_render_output:
  "map outputs (filter loads_extension (cells RagAgent)) = [[]]
   \<and> length (ask_cells RagAgent) = 13
   \<and> list_all (\<lambda>c. outputs c \<noteq> []) (ask_cells RagAgent)
   \<and> filter (\<lambda>c. outputs c \<noteq> []) (cells RagAgent) = ask_cells RagAgent
   \<and> map (\<lambda>c. map output_type (outputs c)) (ask_cells RagAgent) =
       [''stream'', ''display_data'', ''display_data'']
       # replicate 12 [''display_data'', ''display_data'']"
proof -
  have "map outputs (filter loads_extension (cells RagAgent)) = [[]]"
    by (simp add: cells_RagAgent loads_extension_cells outputs_empty_cells)
  moreover have "filter (\<lambda>c. outputs c \<noteq> []) (cells RagAgent) = ask_cells RagAgent"
    by (simp add: cells_RagAgent ask_cells_RagAgent outputs_empty_cells)
  moreover have "list_all (\<lambda>c. outputs c \<noteq> []) (ask_cells RagAgent)"
    by (simp add: ask_cells_RagAgent outputs_empty_cells)
  moreover have "map (\<lambda>c. map output_type (outputs c)) (ask_cells RagAgent) =
      [''stream'', ''display_data'', ''display_data'']
      # replicate 12 [''display_data'', ''display_data'']"
    by (simp add: ask_cells_RagAgent output_types_cells numeral_eq_Suc)
  ultimately show ?thesis
    by (simp add: ask_cells_RagAgent)
qed

end
